theory Spec2Isabelle
  imports Complex_Main "HOL-Library.Multiset"
begin

section \<open>pkg: execution results and error values\<close>

text \<open>
  \<^verbatim>\<open>pkg.Result\<close> (src/pkg/types.go). Go's \<^verbatim>\<open>int\<close> and \<^verbatim>\<open>int64\<close> fields are
  integers; no arithmetic is done on them here, so no wrap-around arises.
\<close>

record Result =
  ExitCode :: int
  Stdout :: string
  Stderr :: string
  Duration :: int

text \<open>
  Go error values. \<open>Errorf m\<close> is \<^verbatim>\<open>fmt.Errorf(m)\<close> with no wrapped error,
  \<open>Wrap p e\<close> is \<^verbatim>\<open>fmt.Errorf(p + "%w", e)\<close>, \<open>CtxErr\<close> is the value of
  \<^verbatim>\<open>ctx.Err()\<close>, \<open>LibErr\<close> an error returned by a library (ssh, sftp, os, net),
  and \<open>NotConnected\<close> is \<^verbatim>\<open>fmt.Errorf("not connected to server")\<close>.
\<close>

datatype error =
    NotConnected
  | CtxErr string
  | LibErr string
  | Errorf string
  | Wrap string error

fun error_text :: "error \<Rightarrow> string" where
  "error_text NotConnected = ''not connected to server''"
| "error_text (CtxErr m) = m"
| "error_text (LibErr m) = m"
| "error_text (Errorf m) = m"
| "error_text (Wrap p e) = p @ error_text e"

section \<open>internal/config: the server entry\<close>

record config_Server =
  Host :: string
  SSHUser :: string
  SSHKey :: string
  SSHPort :: int
  Sudo :: bool
  Distro :: string
  Nexus :: string

section \<open>internal/server/ssh.go: the remote host handle\<close>

text \<open>
  \<^verbatim>\<open>SSHServer\<close>: \<open>client\<close> is True when \<^verbatim>\<open>s.client != nil\<close>, \<open>conn\<close> when
  \<^verbatim>\<open>s.conn != nil\<close>. The methods have pointer receivers, so each one returns the
  handle as it leaves it.
\<close>

record SSHServer =
  config :: config_Server
  client :: bool
  conn :: bool
  sid :: string

definition NewSSHServer :: "string \<Rightarrow> config_Server \<Rightarrow> SSHServer" where
  "NewSSHServer i c = \<lparr>config = c, client = False, conn = False, sid = i\<rparr>"

text \<open>
  What the transport does during one call of \<^verbatim>\<open>Execute\<close>, as the command that is
  run decides it: the session cannot be created; the context's \<^verbatim>\<open>Done\<close> channel is
  the case the \<^verbatim>\<open>select\<close> takes (with the text of \<^verbatim>\<open>ctx.Err()\<close>); or
  \<^verbatim>\<open>session.Run\<close> returns, with its error, the captured output and the elapsed
  milliseconds.

  \<^verbatim>\<open>session.Run\<close> is called in a goroutine of its own (ssh.go 125-127), and nothing
  orders that call against what the calling goroutine does when it takes the
  \<^verbatim>\<open>ctx.Done()\<close> case: \<^verbatim>\<open>session.Signal\<close> and then, on return, the deferred
  \<^verbatim>\<open>session.Close\<close>. The scheduler decides where the call of \<^verbatim>\<open>Run\<close> falls:
  before the signal, between the signal and the close, or after the close.
\<close>

datatype run_error = RunOk | ExitError int | RunErr string

datatype cancel_phase = RunBeforeSignal | RunBeforeClose | RunAfterClose

datatype exec_event =
    NewSessionErr string
  | CtxDone string cancel_phase
  | RunDone run_error string string int

type_synonym transport = "string \<Rightarrow> exec_event"

text \<open>The calls made on the ssh client and session, in order.\<close>

datatype action = NewSession | Run string | Signal string | SessionClose

definition sudo_wrap :: "SSHServer \<Rightarrow> string \<Rightarrow> bool \<Rightarrow> string" where
  "sudo_wrap s cmd sudo = (if sudo \<and> Sudo (config s) then ''sudo -n '' @ cmd else cmd)"

definition run_result :: "run_error \<Rightarrow> string \<Rightarrow> string \<Rightarrow> int \<Rightarrow> Result" where
  "run_result err out errout d =
     (case err of
        RunOk \<Rightarrow> \<lparr>ExitCode = 0, Stdout = out, Stderr = errout, Duration = d\<rparr>
      | ExitError n \<Rightarrow> \<lparr>ExitCode = n, Stdout = out, Stderr = errout, Duration = d\<rparr>
      | RunErr m \<Rightarrow>
          \<lparr>ExitCode = 1, Stdout = out,
           Stderr = (if errout = [] then m else errout), Duration = d\<rparr>)"

text \<open>The calls on the session when the context is done, in the order the phase gives.\<close>

definition cancel_actions :: "cancel_phase \<Rightarrow> string \<Rightarrow> action list" where
  "cancel_actions ph cmd =
     (case ph of
        RunBeforeSignal \<Rightarrow> [NewSession, Run cmd, Signal ''KILL'', SessionClose]
      | RunBeforeClose \<Rightarrow> [NewSession, Signal ''KILL'', Run cmd, SessionClose]
      | RunAfterClose \<Rightarrow> [NewSession, Signal ''KILL'', SessionClose, Run cmd])"

text \<open>
  \<^verbatim>\<open>SSHServer.Execute\<close> (ssh.go 100-158). The result is the returned pair as a sum
  (\<open>Inl\<close> the error, \<open>Inr\<close> the \<^verbatim>\<open>*pkg.Result\<close>), the handle afterwards and the
  calls made on the transport. When \<^verbatim>\<open>Run\<close> has returned, the deferred
  \<^verbatim>\<open>session.Close\<close> is the last call.
\<close>

definition Execute ::
  "SSHServer \<Rightarrow> transport \<Rightarrow> string \<Rightarrow> bool \<Rightarrow> (error + Result) \<times> SSHServer \<times> action list" where
  "Execute s tr cmd sudo =
     (if \<not> client s then (Inl NotConnected, s, [])
      else
        let cmd' = sudo_wrap s cmd sudo in
        case tr cmd' of
          NewSessionErr e \<Rightarrow>
            (Inl (Wrap ''failed to create SSH session: '' (LibErr e)), s, [NewSession])
        | CtxDone e ph \<Rightarrow> (Inl (CtxErr e), s, cancel_actions ph cmd')
        | RunDone err out errout d \<Rightarrow>
            (Inr (run_result err out errout d), s, [NewSession, Run cmd', SessionClose]))"


text \<open>The returned pair alone, for the methods that call \<^verbatim>\<open>s.Execute\<close>.\<close>

definition exec :: "SSHServer \<Rightarrow> transport \<Rightarrow> string \<Rightarrow> bool \<Rightarrow> error + Result" where
  "exec s tr cmd sudo = fst (Execute s tr cmd sudo)"

subsection \<open>Library functions of strings and strconv\<close>

text \<open>
  Go strings are byte sequences, as \<open>string\<close> is here; the functions that work on
  runes decode UTF-8 from those bytes.
\<close>

definition HasPrefix :: "string \<Rightarrow> string \<Rightarrow> bool" where
  "HasPrefix s p = (take (length p) s = p)"

definition TrimPrefix :: "string \<Rightarrow> string \<Rightarrow> string" where
  "TrimPrefix s p = (if HasPrefix s p then drop (length p) s else s)"

definition Trim :: "string \<Rightarrow> string \<Rightarrow> string" where
  "Trim s cutset =
     rev (dropWhile (\<lambda>c. c \<in> set cutset) (rev (dropWhile (\<lambda>c. c \<in> set cutset) s)))"

text \<open>
  White space, as \<^verbatim>\<open>unicode.IsSpace\<close> has it: the runes U+0009 to U+000D, U+0020,
  U+0085, U+00A0, U+1680, U+2000 to U+200A, U+2028, U+2029, U+202F, U+205F and U+3000.
  \<open>space_width s\<close> is the number of bytes of the white space rune that \<open>s\<close> starts
  with in UTF-8, and 0 when it starts with none. A byte that starts no valid encoding
  decodes to the error rune, of width 1, which is no white space.
\<close>

definition space_width :: "string \<Rightarrow> nat" where
  "space_width s =
     (case s of
        [] \<Rightarrow> 0
      | c # cs \<Rightarrow>
          if c \<in> set [CHR 0x09, CHR 0x0A, CHR 0x0B, CHR 0x0C, CHR 0x0D, CHR 0x20] then 1
          else if c = CHR 0xC2
          then (if take 1 cs = [CHR 0x85] \<or> take 1 cs = [CHR 0xA0] then 2 else 0)
          else if c = CHR 0xE1
          then (if take 2 cs = [CHR 0x9A, CHR 0x80] then 3 else 0)
          else if c = CHR 0xE2
          then (if take 1 cs = [CHR 0x80] \<and>
                   take 1 (drop 1 cs) \<in> set (map (\<lambda>b. [b])
                     [CHR 0x80, CHR 0x81, CHR 0x82, CHR 0x83, CHR 0x84, CHR 0x85, CHR 0x86,
                      CHR 0x87, CHR 0x88, CHR 0x89, CHR 0x8A, CHR 0xA8, CHR 0xA9, CHR 0xAF])
                   \<or> take 2 cs = [CHR 0x81, CHR 0x9F]
                then 3 else 0)
          else if c = CHR 0xE3
          then (if take 2 cs = [CHR 0x80, CHR 0x80] then 3 else 0)
          else 0)"

text \<open>
  The string cut into its white space runes (marked True) and its other bytes, from
  the left. A white space rune's encoding starts with a byte that continues no other
  encoding, so the cut finds every one of them, also the one a scan from the right
  end meets.
\<close>

fun scan :: "string \<Rightarrow> (bool \<times> string) list" where
  "scan [] = []"
| "scan (c # cs) =
     (if space_width (c # cs) = 0 then (False, [c]) # scan cs
      else (True, take (space_width (c # cs)) (c # cs)) #
           scan (drop (space_width (c # cs) - 1) cs))"

text \<open>\<^verbatim>\<open>strings.TrimSpace\<close>: the leading and the trailing white space runes are cut off.\<close>

definition TrimSpace :: "string \<Rightarrow> string" where
  "TrimSpace s = concat (map snd (rev (dropWhile fst (rev (dropWhile fst (scan s))))))"

definition Contains :: "string \<Rightarrow> string \<Rightarrow> bool" where
  "Contains s sub = list_ex (\<lambda>i. take (length sub) (drop i s) = sub) [0..<Suc (length s)]"

fun Split :: "string \<Rightarrow> char \<Rightarrow> string list" where
  "Split [] sep = [[]]"
| "Split (c # cs) sep =
     (if c = sep then [] # Split cs sep
      else (case Split cs sep of [] \<Rightarrow> [[c]] | w # ws \<Rightarrow> (c # w) # ws))"

text \<open>\<^verbatim>\<open>strings.Fields\<close>: the maximal runs of bytes between white space runes.\<close>

fun fields_from :: "string \<Rightarrow> (bool \<times> string) list \<Rightarrow> string list" where
  "fields_from cur [] = (if cur = [] then [] else [cur])"
| "fields_from cur ((sp, bytes) # rest) =
     (if sp then (if cur = [] then fields_from [] rest else cur # fields_from [] rest)
      else fields_from (cur @ bytes) rest)"

definition Fields :: "string \<Rightarrow> string list" where
  "Fields s = fields_from [] (scan s)"

text \<open>
  \<^verbatim>\<open>strings.ToLower\<close> maps every rune through the Unicode case tables; it is the
  library's, and the functions that call it take it as the argument \<open>lower\<close>. On text
  of ASCII bytes it is \<open>ascii_lower\<close>.
\<close>

definition lower_char :: "char \<Rightarrow> char" where
  "lower_char c =
     (if 65 \<le> (of_char c :: nat) \<and> (of_char c :: nat) \<le> 90
      then char_of ((of_char c :: nat) + 32) else c)"

definition ascii_lower :: "string \<Rightarrow> string" where
  "ascii_lower s = map lower_char s"

text \<open>\<^verbatim>\<open>%d\<close> and \<^verbatim>\<open>strconv.Itoa\<close>: the decimal digits, with a minus sign.\<close>

fun string_of_nat :: "nat \<Rightarrow> string" where
  "string_of_nat n =
     (if n < 10 then [''0123456789'' ! n]
      else string_of_nat (n div 10) @ [''0123456789'' ! (n mod 10)])"

declare string_of_nat.simps [simp del]

definition Itoa :: "int \<Rightarrow> string" where
  "Itoa i = (if i < 0 then CHR ''-'' # string_of_nat (nat (- i)) else string_of_nat (nat i))"

text \<open>
  \<^verbatim>\<open>strconv.ParseInt(s, 10, 64)\<close> returns a value and an error: 0 with a syntax error
  (empty text, a lone sign, a byte that is no digit), the nearest bound with a range
  error. \<^verbatim>\<open>strconv.Atoi\<close> is the same function where \<^verbatim>\<open>int\<close> has 64 bits.
\<close>

datatype num_error = ErrSyntax | ErrRange

fun parse_digits :: "nat \<Rightarrow> string \<Rightarrow> nat option" where
  "parse_digits acc [] = Some acc"
| "parse_digits acc (c # cs) =
     (if 48 \<le> (of_char c :: nat) \<and> (of_char c :: nat) \<le> 57
      then parse_digits (acc * 10 + ((of_char c :: nat) - 48)) cs else None)"

definition ParseInt :: "string \<Rightarrow> int \<times> num_error option" where
  "ParseInt s =
     (let neg = (s \<noteq> [] \<and> hd s = CHR ''-'');
          body = (if s \<noteq> [] \<and> (hd s = CHR ''+'' \<or> hd s = CHR ''-'') then tl s else s)
      in if body = [] then (0, Some ErrSyntax)
         else (case parse_digits 0 body of
                 None \<Rightarrow> (0, Some ErrSyntax)
               | Some n \<Rightarrow>
                   if \<not> neg \<and> 2 ^ 63 \<le> n then (2 ^ 63 - 1, Some ErrRange)
                   else if neg \<and> 2 ^ 63 < n then (- (2 ^ 63), Some ErrRange)
                   else (if neg then - int n else int n, None)))"

definition Atoi :: "string \<Rightarrow> int \<times> num_error option" where
  "Atoi s = ParseInt s"

text \<open>
  \<^verbatim>\<open>float64\<close> values are read as reals: rounding is left out, and no property below
  rests on a float's value. \<^verbatim>\<open>strconv.ParseFloat\<close> is a parameter of the probes
  (its value and its error, as Go returns both).
\<close>

type_synonym float64 = real

type_synonym parse_float = "string \<Rightarrow> float64 \<times> num_error option"

subsection \<open>Health check and distribution detection\<close>

text \<open>\<^verbatim>\<open>SSHServer.HealthCheck\<close> (ssh.go 287-302); \<open>None\<close> is the nil error.\<close>

definition HealthCheck :: "SSHServer \<Rightarrow> transport \<Rightarrow> error option" where
  "HealthCheck s tr =
     (case exec s tr (''echo '' @ [CHR 0x27] @ ''health_check'' @ [CHR 0x27]) False of
        Inl err \<Rightarrow> Some (Wrap ''SSH connection failed: '' err)
      | Inr result \<Rightarrow>
          if ExitCode result \<noteq> 0
          then Some (Errorf (''health check command failed with exit code '' @ Itoa (ExitCode result)))
          else if TrimSpace (Stdout result) \<noteq> ''health_check''
          then Some (Errorf (''unexpected health check response: '' @ Stdout result))
          else None)"

text \<open>
  \<^verbatim>\<open>SSHServer.GetDistro\<close> (ssh.go 218-249). The first loop returns at the first line
  with the prefix \<^verbatim>\<open>ID=\<close>.
\<close>

fun os_release_id :: "(string \<Rightarrow> string) \<Rightarrow> string list \<Rightarrow> string option" where
  "os_release_id lower [] = None"
| "os_release_id lower (line # lines) =
     (if HasPrefix line ''ID=''
      then Some (lower (Trim (TrimPrefix line ''ID='') [CHR 0x22]))
      else os_release_id lower lines)"

text \<open>
  \<^verbatim>\<open>distroFiles\<close> is a Go map literal; its entries are listed here as the source
  writes them. The second loop ranges over the map, and Go leaves the order of a map
  iteration unspecified (the runtime randomises it), so \<open>GetDistro\<close> takes the order
  of that iteration, a list \<open>order\<close> of the entries, as an argument.
\<close>

definition distroFiles :: "(string \<times> string) list" where
  "distroFiles =
     [(''ubuntu'', ''/etc/lsb-release''),
      (''debian'', ''/etc/debian_version''),
      (''centos'', ''/etc/centos-release''),
      (''rhel'', ''/etc/redhat-release''),
      (''rocky'', ''/etc/rocky-release''),
      (''alpine'', ''/etc/alpine-release'')]"

fun probe_release_files :: "SSHServer \<Rightarrow> transport \<Rightarrow> (string \<times> string) list \<Rightarrow> string" where
  "probe_release_files s tr [] = ''unknown''"
| "probe_release_files s tr ((distro, file) # rest) =
     (case exec s tr (''test -f '' @ file) False of
        Inr result \<Rightarrow>
          if ExitCode result = 0 then distro else probe_release_files s tr rest
      | Inl err \<Rightarrow> probe_release_files s tr rest)"

text \<open>The error \<^verbatim>\<open>GetDistro\<close> returns is nil on every path, so the model returns the name alone.\<close>

definition GetDistro ::
  "(string \<Rightarrow> string) \<Rightarrow> SSHServer \<Rightarrow> transport \<Rightarrow> (string \<times> string) list \<Rightarrow> string" where
  "GetDistro lower s tr order =
     (case (case exec s tr ''cat /etc/os-release'' False of
              Inr result \<Rightarrow>
                if ExitCode result = 0
                then os_release_id lower (Split (Stdout result) (CHR 0x0A))
                else None
            | Inl err \<Rightarrow> None) of
        Some distro \<Rightarrow> distro
      | None \<Rightarrow> probe_release_files s tr order)"

subsection \<open>Telemetry probes\<close>

text \<open>The telemetry records of src/pkg/types.go; fields carry their struct's name.\<close>

record CPUInfo =
  cpu_Cores :: int
  cpu_Usage :: float64
  cpu_Model :: string
  cpu_Arch :: string

record MemoryInfo =
  mem_Total :: int
  mem_Available :: int
  mem_Used :: int
  mem_Usage :: float64

record DiskInfo =
  disk_Total :: int
  disk_Available :: int
  disk_Used :: int
  disk_Usage :: float64

record LoadInfo =
  Load1 :: float64
  Load5 :: float64
  Load15 :: float64

record ResourceInfo =
  CPU :: CPUInfo
  Memory :: MemoryInfo
  Disk :: DiskInfo
  Load :: LoadInfo

definition top_cmd :: string where
  "top_cmd =
     ''top -bn1 | grep '' @ [CHR 0x27] @ ''Cpu(s)'' @ [CHR 0x27] @ '' | sed '' @ [CHR 0x27] @
     ''s/.*, *'' @ [CHR 0x5C] @ ''([0-9.]*'' @ [CHR 0x5C] @ '')%* id.*/'' @ [CHR 0x5C] @ ''1/'' @
     [CHR 0x27] @ '' | awk '' @ [CHR 0x27] @ ''{print 100 - $1}'' @ [CHR 0x27]"

definition cpu_model_cmd :: string where
  "cpu_model_cmd =
     ''cat /proc/cpuinfo | grep '' @ [CHR 0x27] @ ''model name'' @ [CHR 0x27] @
     '' | head -1 | cut -d: -f2 | sed '' @ [CHR 0x27] @ ''s/^ *//'' @ [CHR 0x27]"

text \<open>
  \<^verbatim>\<open>getCPUInfo\<close> (ssh.go 330-371). Only the error of the \<^verbatim>\<open>nproc\<close> call is
  returned; a core count that does not parse becomes 1, and the other three probes keep
  their defaults when they fail.
\<close>

definition getCPUInfo :: "SSHServer \<Rightarrow> transport \<Rightarrow> parse_float \<Rightarrow> error + CPUInfo" where
  "getCPUInfo s tr pf =
     (case exec s tr ''nproc'' False of
        Inl err \<Rightarrow> Inl err
      | Inr result \<Rightarrow>
          let cores = (case Atoi (TrimSpace (Stdout result)) of
                         (n, None) \<Rightarrow> n
                       | (n, Some err) \<Rightarrow> 1);
              usage = (case exec s tr top_cmd False of
                         Inr r \<Rightarrow>
                           if ExitCode r = 0
                           then (case pf (TrimSpace (Stdout r)) of
                                   (u, None) \<Rightarrow> u
                                 | (u, Some err) \<Rightarrow> 0)
                           else 0
                       | Inl err \<Rightarrow> 0);
              model = (case exec s tr cpu_model_cmd False of
                         Inr r \<Rightarrow>
                           if ExitCode r = 0 \<and> Stdout r \<noteq> [] then TrimSpace (Stdout r)
                           else ''Unknown''
                       | Inl err \<Rightarrow> ''Unknown'');
              arch = (case exec s tr ''uname -m'' False of
                        Inr r \<Rightarrow> if ExitCode r = 0 then TrimSpace (Stdout r) else ''Unknown''
                      | Inl err \<Rightarrow> ''Unknown'')
          in Inr \<lparr>cpu_Cores = cores, cpu_Usage = usage, cpu_Model = model, cpu_Arch = arch\<rparr>)"

definition percent :: "int \<Rightarrow> int \<Rightarrow> float64" where
  "percent used tot = (if tot > 0 then real_of_int used / real_of_int tot * 100 else 0)"

text \<open>\<^verbatim>\<open>getMemoryInfo\<close> (ssh.go 373-405): the errors of \<^verbatim>\<open>ParseInt\<close> are discarded.\<close>

definition getMemoryInfo :: "SSHServer \<Rightarrow> transport \<Rightarrow> error + MemoryInfo" where
  "getMemoryInfo s tr =
     (case exec s tr ''free -b'' False of
        Inl err \<Rightarrow> Inl err
      | Inr result \<Rightarrow>
          let lines = Split (Stdout result) (CHR 0x0A) in
          if length lines < 2 then Inl (Errorf ''unexpected free command output'')
          else
            let fields = Fields (lines ! 1) in
            if length fields < 7 then Inl (Errorf ''unexpected free command format'')
            else
              let tot = fst (ParseInt (fields ! 1));
                  used = fst (ParseInt (fields ! 2));
                  available = fst (ParseInt (fields ! 6))
              in Inr \<lparr>mem_Total = tot, mem_Available = available, mem_Used = used,
                      mem_Usage = percent used tot\<rparr>)"

text \<open>\<^verbatim>\<open>getDiskInfo\<close> (ssh.go 407-439).\<close>

definition getDiskInfo :: "SSHServer \<Rightarrow> transport \<Rightarrow> error + DiskInfo" where
  "getDiskInfo s tr =
     (case exec s tr ''df -B1 /'' False of
        Inl err \<Rightarrow> Inl err
      | Inr result \<Rightarrow>
          let lines = Split (Stdout result) (CHR 0x0A) in
          if length lines < 2 then Inl (Errorf ''unexpected df command output'')
          else
            let fields = Fields (lines ! 1) in
            if length fields < 4 then Inl (Errorf ''unexpected df command format'')
            else
              let tot = fst (ParseInt (fields ! 1));
                  used = fst (ParseInt (fields ! 2));
                  available = fst (ParseInt (fields ! 3))
              in Inr \<lparr>disk_Total = tot, disk_Available = available, disk_Used = used,
                      disk_Usage = percent used tot\<rparr>)"

text \<open>\<^verbatim>\<open>getLoadInfo\<close> (ssh.go 441-461): the errors of \<^verbatim>\<open>ParseFloat\<close> are discarded.\<close>

definition getLoadInfo :: "SSHServer \<Rightarrow> transport \<Rightarrow> parse_float \<Rightarrow> error + LoadInfo" where
  "getLoadInfo s tr pf =
     (case exec s tr ''cat /proc/loadavg'' False of
        Inl err \<Rightarrow> Inl err
      | Inr result \<Rightarrow>
          let fields = Fields (Stdout result) in
          if length fields < 3 then Inl (Errorf ''unexpected loadavg format'')
          else Inr \<lparr>Load1 = fst (pf (fields ! 0)), Load5 = fst (pf (fields ! 1)),
                    Load15 = fst (pf (fields ! 2))\<rparr>)"

text \<open>\<^verbatim>\<open>SSHServer.GetResources\<close> (ssh.go 252-284).\<close>

definition GetResources :: "SSHServer \<Rightarrow> transport \<Rightarrow> parse_float \<Rightarrow> error + ResourceInfo" where
  "GetResources s tr pf =
     (case getCPUInfo s tr pf of
        Inl err \<Rightarrow> Inl (Wrap ''failed to get CPU info: '' err)
      | Inr cpuInfo \<Rightarrow>
     (case getMemoryInfo s tr of
        Inl err \<Rightarrow> Inl (Wrap ''failed to get memory info: '' err)
      | Inr memInfo \<Rightarrow>
     (case getDiskInfo s tr of
        Inl err \<Rightarrow> Inl (Wrap ''failed to get disk info: '' err)
      | Inr diskInfo \<Rightarrow>
     (case getLoadInfo s tr pf of
        Inl err \<Rightarrow> Inl (Wrap ''failed to get load info: '' err)
      | Inr loadInfo \<Rightarrow>
          Inr \<lparr>CPU = cpuInfo, Memory = memInfo, Disk = diskInfo, Load = loadInfo\<rparr>))))"

subsection \<open>Connection lifecycle and file transfer\<close>

text \<open>
  What the file system, the dialer and the ssh library answer during \<^verbatim>\<open>Connect\<close> and
  \<^verbatim>\<open>Disconnect\<close>: an error text, or success. \<^verbatim>\<open>filepath.Join\<close> is the library's.
\<close>

record connect_env =
  os_UserHomeDir :: "string + string"
  filepath_Join :: "string \<Rightarrow> string \<Rightarrow> string"
  os_ReadFile :: "string \<Rightarrow> string + string"
  ssh_ParsePrivateKey :: "string \<Rightarrow> string option"
  net_DialTimeout :: "string \<Rightarrow> string option"
  ssh_NewClientConn :: "string \<Rightarrow> string option"
  client_Close :: "string option"

definition JoinHostPort :: "string \<Rightarrow> string \<Rightarrow> string" where
  "JoinHostPort host port =
     (if CHR '':'' \<in> set host then ''['' @ host @ '']:'' @ port else host @ '':'' @ port)"

text \<open>The key path \<^verbatim>\<open>Connect\<close> reads: \<^verbatim>\<open>~/\<close> is replaced by the home directory.\<close>

definition key_path :: "SSHServer \<Rightarrow> connect_env \<Rightarrow> error + string" where
  "key_path s env =
     (if HasPrefix (SSHKey (config s)) ''~/''
      then (case os_UserHomeDir env of
              Inl e \<Rightarrow> Inl (Wrap ''failed to get home directory: '' (LibErr e))
            | Inr home \<Rightarrow> Inr (filepath_Join env home (drop 2 (SSHKey (config s)))))
      else Inr (SSHKey (config s)))"

text \<open>\<^verbatim>\<open>SSHServer.Connect\<close> (ssh.go 38-97).\<close>

definition Connect :: "SSHServer \<Rightarrow> connect_env \<Rightarrow> error option \<times> SSHServer" where
  "Connect s env =
     (if client s then (None, s)
      else
        case key_path s env of
          Inl err \<Rightarrow> (Some err, s)
        | Inr keyPath \<Rightarrow>
        (case os_ReadFile env keyPath of
          Inl e \<Rightarrow>
            (Some (Wrap (''failed to read SSH private key from '' @ keyPath @ '': '') (LibErr e)), s)
        | Inr privateKey \<Rightarrow>
        (case ssh_ParsePrivateKey env privateKey of
          Some e \<Rightarrow>
            (if Contains e ''cannot decode encrypted private keys''
             then (Some (Wrap ''SSH private key requires a passphrase (not yet supported): ''
                          (LibErr e)), s)
             else (Some (Wrap (''failed to parse SSH private key at '' @ keyPath @ '': '')
                          (LibErr e)), s))
        | None \<Rightarrow>
            let port = (if SSHPort (config s) = 0 then 22 else SSHPort (config s));
                addr = JoinHostPort (Host (config s)) (Itoa port)
            in (case net_DialTimeout env addr of
                  Some e \<Rightarrow>
                    (Some (Wrap (''failed to connect to '' @ addr @ '': '') (LibErr e)),
                     s\<lparr>conn := False\<rparr>)
                | None \<Rightarrow>
                    (case ssh_NewClientConn env addr of
                       Some e \<Rightarrow>
                         (Some (Wrap ''failed to establish SSH connection: '' (LibErr e)),
                          s\<lparr>conn := True\<rparr>)
                     | None \<Rightarrow> (None, s\<lparr>conn := True, client := True\<rparr>))))))"

text \<open>\<^verbatim>\<open>SSHServer.Disconnect\<close> (ssh.go 305-316).\<close>

definition Disconnect :: "SSHServer \<Rightarrow> connect_env \<Rightarrow> error option \<times> SSHServer" where
  "Disconnect s env =
     (if client s then (map_option LibErr (client_Close env), s\<lparr>client := False, conn := False\<rparr>)
      else (None, s))"

text \<open>
  The answers of sftp and the local file system during \<^verbatim>\<open>TransferFile\<close>;
  \<open>file_Stat\<close> gives the local file's mode. \<^verbatim>\<open>filepath.Dir\<close> is the library's.
\<close>

record transfer_env =
  sftp_NewClient :: "string option"
  os_Open :: "string \<Rightarrow> string option"
  file_Stat :: "string + nat"
  filepath_Dir :: "string \<Rightarrow> string"
  sftp_MkdirAll :: "string \<Rightarrow> string option"
  sftp_Create :: "string \<Rightarrow> string option"
  io_Copy :: "string option"
  sftp_Chmod :: "string \<Rightarrow> nat \<Rightarrow> string option"

datatype file_action =
    SftpNewClient
  | OpenLocal string
  | StatLocal
  | MkdirAll string
  | CreateRemote string
  | CopyData
  | Chmod string nat

text \<open>\<^verbatim>\<open>SSHServer.TransferFile\<close> (ssh.go 161-215), with the calls it makes (the deferred closes left out).\<close>

definition TransferFile ::
  "SSHServer \<Rightarrow> transfer_env \<Rightarrow> string \<Rightarrow> string \<Rightarrow> error option \<times> SSHServer \<times> file_action list" where
  "TransferFile s env loc remote =
     (if \<not> client s then (Some NotConnected, s, [])
      else
        case sftp_NewClient env of
          Some e \<Rightarrow> (Some (Wrap ''failed to create SFTP client: '' (LibErr e)), s, [SftpNewClient])
        | None \<Rightarrow>
        (case os_Open env loc of
          Some e \<Rightarrow>
            (Some (Wrap (''failed to open local file '' @ loc @ '': '') (LibErr e)), s,
             [SftpNewClient, OpenLocal loc])
        | None \<Rightarrow>
        (case file_Stat env of
          Inl e \<Rightarrow>
            (Some (Wrap ''failed to stat local file: '' (LibErr e)), s,
             [SftpNewClient, OpenLocal loc, StatLocal])
        | Inr mode \<Rightarrow>
            let remoteDir = filepath_Dir env remote;
                mk = (if remoteDir \<noteq> ''.'' then [MkdirAll remoteDir] else []);
                pre = [SftpNewClient, OpenLocal loc, StatLocal] @ mk
            in (case (if remoteDir \<noteq> ''.'' then sftp_MkdirAll env remoteDir else None) of
                  Some e \<Rightarrow>
                    (Some (Wrap (''failed to create remote directory '' @ remoteDir @ '': '')
                             (LibErr e)), s, pre)
                | None \<Rightarrow>
                (case sftp_Create env remote of
                  Some e \<Rightarrow>
                    (Some (Wrap (''failed to create remote file '' @ remote @ '': '') (LibErr e)),
                     s, pre @ [CreateRemote remote])
                | None \<Rightarrow>
                (case io_Copy env of
                  Some e \<Rightarrow>
                    (Some (Wrap ''failed to copy file data: '' (LibErr e)), s,
                     pre @ [CreateRemote remote, CopyData])
                | None \<Rightarrow>
                (case sftp_Chmod env remote mode of
                  Some e \<Rightarrow>
                    (Some (Wrap ''failed to set file permissions: '' (LibErr e)), s,
                     pre @ [CreateRemote remote, CopyData, Chmod remote mode])
                | None \<Rightarrow>
                    (None, s, pre @ [CreateRemote remote, CopyData, Chmod remote mode]))))))))"

section \<open>The host factory\<close>

text \<open>\<^verbatim>\<open>ServerFactory.CreateServer\<close>; \<open>None\<close> is the nil configuration.\<close>

definition CreateServer :: "string \<Rightarrow> config_Server option \<Rightarrow> error + SSHServer" where
  "CreateServer i c =
     (case c of
        None \<Rightarrow> Inl (Errorf ''server configuration is nil'')
      | Some cfg \<Rightarrow>
          if Host cfg = [] then Inl (Errorf ''server host is required'')
          else if SSHUser cfg = [] then Inl (Errorf ''SSH user is required'')
          else if SSHKey cfg = [] then Inl (Errorf ''SSH key is required'')
          else Inr (NewSSHServer i cfg))"

text \<open>
  \<^verbatim>\<open>ServerFactory.CreateServerWithDistroDetection\<close>. The handle holds a pointer to the
  configuration, so the assignment to \<^verbatim>\<open>config.Distro\<close> shows in the handle's
  configuration; the deferred \<^verbatim>\<open>Disconnect\<close> runs before the handle is returned.
\<close>

definition CreateServerWithDistroDetection ::
  "(string \<Rightarrow> string) \<Rightarrow> string \<Rightarrow> config_Server option \<Rightarrow> connect_env \<Rightarrow> transport
     \<Rightarrow> (string \<times> string) list \<Rightarrow> error + SSHServer" where
  "CreateServerWithDistroDetection lower i c env tr order =
     (case CreateServer i c of
        Inl err \<Rightarrow> Inl err
      | Inr server \<Rightarrow>
          if Distro (config server) = []
          then (case Connect server env of
                  (Some err, s1) \<Rightarrow> Inl (Wrap ''failed to connect for distro detection: '' err)
                | (None, s1) \<Rightarrow>
                    let distro = GetDistro lower s1 tr order;
                        s2 = s1\<lparr>config := (config s1)\<lparr>Distro := distro\<rparr>\<rparr>
                    in Inr (snd (Disconnect s2 env)))
          else Inr server)"

section \<open>Example inputs\<close>

definition web_config :: config_Server where
  "web_config =
     \<lparr>Host = ''10.0.0.5'', SSHUser = ''deploy'', SSHKey = ''/keys/deploy'', SSHPort = 0,
      Sudo = True, Distro = [], Nexus = ''prod''\<rparr>"

definition web_handle :: SSHServer where
  "web_handle = \<lparr>config = web_config, client = True, conn = True, sid = ''web''\<rparr>"

definition plain_handle :: SSHServer where
  "plain_handle = \<lparr>config = web_config\<lparr>Sudo := False\<rparr>, client = True, conn = True, sid = ''web''\<rparr>"

text \<open>A transport on which every command exits with status 3 and prints its own text.\<close>

definition echo_transport :: transport where
  "echo_transport cmd = RunDone (ExitError 3) cmd ''boom'' 7"



definition broken_transport :: transport where
  "broken_transport cmd = RunDone (RunErr ''wait: remote command exited without exit status'') [] [] 5"

definition no_transfer :: transfer_env where
  "no_transfer =
     \<lparr>sftp_NewClient = None, os_Open = (\<lambda>p. None), file_Stat = Inr 420,
      filepath_Dir = (\<lambda>p. ''.''), sftp_MkdirAll = (\<lambda>p. None), sftp_Create = (\<lambda>p. None),
      io_Copy = None, sftp_Chmod = (\<lambda>p m. None)\<rparr>"

section \<open>Distribution operations over a server\<close>

text \<open>
  The operations of \<^verbatim>\<open>DebianOperations\<close> and \<^verbatim>\<open>RockyOperations\<close> hold a
  \<^verbatim>\<open>pkg.Server\<close> and only call its \<^verbatim>\<open>Execute\<close>. The server is a function from
  the remote host's state, the command and the sudo flag to the returned pair and the
  host's next state. The operations thread that state together with the list of the
  calls made so far, each with the answer it got.
\<close>

type_synonym 'h remote = "'h \<Rightarrow> string \<Rightarrow> bool \<Rightarrow> (error + Result) \<times> 'h"

type_synonym call = "string \<times> bool \<times> (error + Result)"

definition server_Execute ::
  "'h remote \<Rightarrow> 'h \<times> call list \<Rightarrow> string \<Rightarrow> bool \<Rightarrow> (error + Result) \<times> ('h \<times> call list)" where
  "server_Execute srv st cmd sudo =
     (case srv (fst st) cmd sudo of (r, h') \<Rightarrow> (r, (h', snd st @ [(cmd, sudo, r)])))"

text \<open>
  The recurring step of the operations: execute, return the wrapped error when the call
  fails and, where the source tests it (\<open>exitmsg\<close> is \<open>Some\<close>), return an error built
  from the error output when the exit status is not 0.
\<close>

definition checked ::
  "'h remote \<Rightarrow> 'h \<times> call list \<Rightarrow> string \<Rightarrow> bool \<Rightarrow> string \<Rightarrow> string option
     \<Rightarrow> error option \<times> ('h \<times> call list)" where
  "checked srv st cmd sudo errmsg exitmsg =
     (case server_Execute srv st cmd sudo of
        (Inl err, st') \<Rightarrow> (Some (Wrap errmsg err), st')
      | (Inr result, st') \<Rightarrow>
          (case exitmsg of
             Some m \<Rightarrow>
               if ExitCode result \<noteq> 0 then (Some (Errorf (m @ Stderr result)), st')
               else (None, st')
           | None \<Rightarrow> (None, st')))"

text \<open>An error returns at once; otherwise the rest of the function body runs.\<close>

definition and_then ::
  "error option \<times> 's \<Rightarrow> ('s \<Rightarrow> error option \<times> 's) \<Rightarrow> error option \<times> 's" where
  "and_then r rest = (case r of (Some err, st) \<Rightarrow> (Some err, st) | (None, st) \<Rightarrow> rest st)"

subsection \<open>SSH hardening (debian.go 269-313)\<close>

definition backup_cmd :: string where
  "backup_cmd = ''cp /etc/ssh/sshd_config /etc/ssh/sshd_config.backup''"

definition sed_cmd :: "string \<Rightarrow> string \<Rightarrow> string" where
  "sed_cmd pat rep =
     ''sed -i '' @ [CHR 0x27] @ ''s/'' @ pat @ ''/'' @ rep @ ''/'' @ [CHR 0x27] @
     '' /etc/ssh/sshd_config''"

definition hardening :: "string list" where
  "hardening =
     [sed_cmd ''#PermitRootLogin yes'' ''PermitRootLogin no'',
      sed_cmd ''#PasswordAuthentication yes'' ''PasswordAuthentication no'',
      sed_cmd ''#PubkeyAuthentication yes'' ''PubkeyAuthentication yes'',
      sed_cmd ''#Protocol 2'' ''Protocol 2'',
      sed_cmd ''#X11Forwarding yes'' ''X11Forwarding no'']"

fun apply_hardening ::
  "'h remote \<Rightarrow> 'h \<times> call list \<Rightarrow> string list \<Rightarrow> error option \<times> ('h \<times> call list)" where
  "apply_hardening srv st [] = (None, st)"
| "apply_hardening srv st (cmd # cmds) =
     and_then
       (checked srv st cmd True ''failed to apply SSH hardening: ''
          (Some ''SSH hardening command failed: ''))
       (\<lambda>st. apply_hardening srv st cmds)"

definition HardenSSH :: "'h remote \<Rightarrow> 'h \<times> call list \<Rightarrow> error option \<times> ('h \<times> call list)" where
  "HardenSSH srv st =
     and_then (checked srv st backup_cmd True ''failed to backup SSH config: '' None)
    (\<lambda>st. and_then (apply_hardening srv st hardening)
    (\<lambda>st. and_then
       (checked srv st ''sshd -t'' True ''failed to test SSH configuration: ''
          (Some ''SSH configuration test failed: ''))
    (\<lambda>st. checked srv st ''systemctl restart sshd'' True ''failed to restart SSH service: ''
          (Some ''SSH service restart failed: ''))))"

subsection \<open>Firewall rules\<close>

record FirewallRule =
  Port :: int
  Protocol :: string
  Source :: string
  Action :: string
  Comment :: string

text \<open>\<^verbatim>\<open>DebianOperations.addFirewallRule\<close> (debian.go 183-212).\<close>

definition Debian_rule_cmd :: "FirewallRule \<Rightarrow> string" where
  "Debian_rule_cmd rule =
     (let action = (if Action rule = ''deny'' then ''deny'' else ''allow'');
          protocol = (if Protocol rule = [] then ''tcp'' else Protocol rule)
      in if Source rule = ''any'' \<or> Source rule = []
         then ''ufw '' @ action @ '' '' @ Itoa (Port rule) @ ''/'' @ protocol
         else ''ufw '' @ action @ '' from '' @ Source rule @ '' to any port '' @
              Itoa (Port rule) @ '' proto '' @ protocol)"

definition Debian_addFirewallRule ::
  "'h remote \<Rightarrow> 'h \<times> call list \<Rightarrow> FirewallRule \<Rightarrow> error option \<times> ('h \<times> call list)" where
  "Debian_addFirewallRule srv st rule =
     checked srv st (Debian_rule_cmd rule) True ''failed to execute UFW command: ''
       (Some ''UFW command failed: '')"

fun Debian_add_rules ::
  "'h remote \<Rightarrow> 'h \<times> call list \<Rightarrow> FirewallRule list \<Rightarrow> error option \<times> ('h \<times> call list)" where
  "Debian_add_rules srv st [] = (None, st)"
| "Debian_add_rules srv st (rule # rules) =
     (case Debian_addFirewallRule srv st rule of
        (Some err, st') \<Rightarrow>
          (Some (Wrap (''failed to add firewall rule for port '' @ Itoa (Port rule) @ '': '') err),
           st')
      | (None, st') \<Rightarrow> Debian_add_rules srv st' rules)"

text \<open>\<^verbatim>\<open>DebianOperations.ConfigureFirewall\<close> (debian.go 132-180).\<close>

definition Debian_ConfigureFirewall ::
  "'h remote \<Rightarrow> 'h \<times> call list \<Rightarrow> FirewallRule list \<Rightarrow> error option \<times> ('h \<times> call list)" where
  "Debian_ConfigureFirewall srv st rules =
     (case server_Execute srv st ''which ufw'' False of
        (r, st1) \<Rightarrow>
     and_then
       (if (case r of Inl err \<Rightarrow> True | Inr result \<Rightarrow> ExitCode result \<noteq> 0)
        then checked srv st1 ''apt-get update && apt-get install -y ufw'' True
               ''failed to install UFW: '' (Some ''UFW installation failed: '')
        else (None, st1))
    (\<lambda>st. and_then (checked srv st ''ufw --force reset'' True ''failed to reset UFW: '' None)
    (\<lambda>st. and_then
       (checked srv st ''ufw default deny incoming'' True
          ''failed to set default deny incoming: '' None)
    (\<lambda>st. and_then
       (checked srv st ''ufw default allow outgoing'' True
          ''failed to set default allow outgoing: '' None)
    (\<lambda>st. and_then (Debian_add_rules srv st rules)
    (\<lambda>st. checked srv st ''ufw --force enable'' True ''failed to enable UFW: ''
          (Some ''UFW enable failed: '')))))))"

text \<open>
  \<^verbatim>\<open>RockyOperations.addFirewallRule\<close> (lines 162-208): the protocol \<^verbatim>\<open>tcp/udp\<close> is
  handled by two recursive calls, on the rule with protocol \<^verbatim>\<open>tcp\<close> and then
  \<^verbatim>\<open>udp\<close>.
\<close>

definition Rocky_rule_cmd :: "FirewallRule \<Rightarrow> string" where
  "Rocky_rule_cmd rule =
     (let protocol = (if Protocol rule = [] then ''tcp'' else Protocol rule)
      in if Source rule = ''any'' \<or> Source rule = []
         then ''firewall-cmd --add-port='' @ Itoa (Port rule) @ ''/'' @ protocol
         else ''firewall-cmd --add-rich-rule='' @ [CHR 0x27] @ ''rule family='' @
              [CHR 0x22] @ ''ipv4'' @ [CHR 0x22] @ '' source address='' @
              [CHR 0x22] @ Source rule @ [CHR 0x22] @ '' port protocol='' @
              [CHR 0x22] @ protocol @ [CHR 0x22] @ '' port='' @
              [CHR 0x22] @ Itoa (Port rule) @ [CHR 0x22] @
              (if Action rule = ''deny'' then '' reject'' else '' accept'') @ [CHR 0x27])"

function Rocky_addFirewallRule ::
  "'h remote \<Rightarrow> 'h \<times> call list \<Rightarrow> FirewallRule \<Rightarrow> error option \<times> ('h \<times> call list)" where
  "Rocky_addFirewallRule srv st rule =
     (if (if Protocol rule = [] then ''tcp'' else Protocol rule) = ''tcp/udp''
      then (case Rocky_addFirewallRule srv st (rule\<lparr>Protocol := ''tcp''\<rparr>) of
              (Some err, st') \<Rightarrow> (Some err, st')
            | (None, st') \<Rightarrow> Rocky_addFirewallRule srv st' (rule\<lparr>Protocol := ''udp''\<rparr>))
      else checked srv st (Rocky_rule_cmd rule) True ''failed to execute firewalld command: ''
             (Some ''firewalld command failed: ''))"
  by pat_completeness auto
termination
  by (relation "measure (\<lambda>(srv, st, rule). if Protocol rule = ''tcp/udp'' then 1 else 0)")
    (auto split: if_splits)

declare Rocky_addFirewallRule.simps [simp del]

fun Rocky_add_rules ::
  "'h remote \<Rightarrow> 'h \<times> call list \<Rightarrow> FirewallRule list \<Rightarrow> error option \<times> ('h \<times> call list)" where
  "Rocky_add_rules srv st [] = (None, st)"
| "Rocky_add_rules srv st (rule # rules) =
     (case Rocky_addFirewallRule srv st rule of
        (Some err, st') \<Rightarrow>
          (Some (Wrap (''failed to add firewall rule for port '' @ Itoa (Port rule) @ '': '') err),
           st')
      | (None, st') \<Rightarrow> Rocky_add_rules srv st' rules)"

text \<open>\<^verbatim>\<open>RockyOperations.ConfigureFirewall\<close> (lines 103-159).\<close>

definition Rocky_ConfigureFirewall ::
  "'h remote \<Rightarrow> 'h \<times> call list \<Rightarrow> FirewallRule list \<Rightarrow> error option \<times> ('h \<times> call list)" where
  "Rocky_ConfigureFirewall srv st rules =
     (case server_Execute srv st ''which firewall-cmd'' False of
        (r, st1) \<Rightarrow>
     and_then
       (if (case r of Inl err \<Rightarrow> True | Inr result \<Rightarrow> ExitCode result \<noteq> 0)
        then checked srv st1 ''dnf install -y firewalld'' True
               ''failed to install firewalld: '' (Some ''firewalld installation failed: '')
        else (None, st1))
    (\<lambda>st. and_then
       (checked srv st ''systemctl start firewalld'' True ''failed to start firewalld: '' None)
    (\<lambda>st. and_then
       (checked srv st ''systemctl enable firewalld'' True ''failed to enable firewalld: '' None)
    (\<lambda>st. and_then
       (checked srv st ''firewall-cmd --set-default-zone=public'' True
          ''failed to set default zone: '' None)
    (\<lambda>st. and_then
       (checked srv st ''firewall-cmd --complete-reload'' True
          ''failed to reload firewall: '' None)
    (\<lambda>st. and_then (Rocky_add_rules srv st rules)
    (\<lambda>st. and_then
       (checked srv st ''firewall-cmd --runtime-to-permanent'' True
          ''failed to make firewall rules permanent: '' None)
    (\<lambda>st. checked srv st ''firewall-cmd --reload'' True
          ''failed to reload firewall: '' None))))))))"

section \<open>The nexus manager\<close>

text \<open>
  A \<^verbatim>\<open>pkg.Server\<close> as the manager uses it: its identity and what its methods return
  when called (the context is part of that behaviour).
\<close>

record pkg_Server =
  srv_ID :: string
  srv_Host :: string
  srv_Execute :: "string \<Rightarrow> bool \<Rightarrow> error + Result"
  srv_HealthCheck :: "error option"
  srv_GetResources :: "error + ResourceInfo"

text \<open>The parts of the configuration the manager reads (internal/config).\<close>

record config_Nexus =
  nx_Description :: string
  nx_Servers :: "string list"
  nx_Environment :: string

record config_Config =
  cfg_Servers :: "string \<rightharpoonup> config_Server"
  cfg_Nexuses :: "string \<rightharpoonup> config_Nexus"

text \<open>
  \<^verbatim>\<open>Manager\<close>: the configuration manager's loaded configuration (\<open>None\<close> when
  \<^verbatim>\<open>GetConfig\<close> returns nil) and its runtime pointer to the current nexus.
\<close>

record Manager =
  mgr_config :: "config_Config option"
  mgr_CurrentNexus :: string

record nexus_Nexus =
  Name :: string
  Description :: string
  Environment :: string
  Servers :: "pkg_Server list"
  Config :: config_Nexus

text \<open>\<^verbatim>\<open>config.Manager.GetNexusServers\<close> (config.go 155-171).\<close>

fun lookup_servers ::
  "(string \<rightharpoonup> config_Server) \<Rightarrow> string \<Rightarrow> string list \<Rightarrow> error + config_Server list" where
  "lookup_servers servers nexusName [] = Inr []"
| "lookup_servers servers nexusName (serverName # rest) =
     (case servers serverName of
        None \<Rightarrow>
          Inl (Errorf (''server '' @ [CHR 0x27] @ serverName @ [CHR 0x27] @
                       '' referenced by nexus '' @ [CHR 0x27] @ nexusName @ [CHR 0x27] @
                       '' not found''))
      | Some server \<Rightarrow>
          (case lookup_servers servers nexusName rest of
             Inl err \<Rightarrow> Inl err
           | Inr found \<Rightarrow> Inr (server # found)))"

definition GetNexusServers :: "config_Config \<Rightarrow> string \<Rightarrow> error + config_Server list" where
  "GetNexusServers cfg nexusName =
     (case cfg_Nexuses cfg nexusName of
        None \<Rightarrow> Inl (Errorf (''nexus '' @ [CHR 0x27] @ nexusName @ [CHR 0x27] @ '' not found''))
      | Some nexus \<Rightarrow> lookup_servers (cfg_Servers cfg) nexusName (nx_Servers nexus))"

text \<open>
  \<^verbatim>\<open>mockServer\<close>, the placeholder \<^verbatim>\<open>getServersForNexus\<close> creates for every member:
  its identity is the host and the ssh user joined by a dash, and its methods succeed.
\<close>

definition mockServer :: "string \<Rightarrow> string \<Rightarrow> pkg_Server" where
  "mockServer i h =
     \<lparr>srv_ID = i, srv_Host = h,
      srv_Execute =
        (\<lambda>cmd sudo. Inr \<lparr>ExitCode = 0, Stdout = ''mock output'', Stderr = [], Duration = 0\<rparr>),
      srv_HealthCheck = None,
      srv_GetResources =
        Inr \<lparr>CPU = \<lparr>cpu_Cores = 4, cpu_Usage = 25, cpu_Model = [], cpu_Arch = []\<rparr>,
             Memory = \<lparr>mem_Total = 8000000000, mem_Available = 0, mem_Used = 2000000000,
                       mem_Usage = 25\<rparr>,
             Disk = \<lparr>disk_Total = 0, disk_Available = 0, disk_Used = 0, disk_Usage = 0\<rparr>,
             Load = \<lparr>Load1 = 0, Load5 = 0, Load15 = 0\<rparr>\<rparr>\<rparr>"

definition getServersForNexus :: "config_Config \<Rightarrow> string \<Rightarrow> error + pkg_Server list" where
  "getServersForNexus cfg nexusName =
     (case GetNexusServers cfg nexusName of
        Inl err \<Rightarrow> Inl err
      | Inr serverConfigs \<Rightarrow>
          Inr (map (\<lambda>serverConfig.
                      mockServer (Host serverConfig @ ''-'' @ SSHUser serverConfig)
                        (Host serverConfig))
                 serverConfigs))"

text \<open>\<^verbatim>\<open>Manager.Get\<close> (lines 88-117).\<close>

definition Get :: "Manager \<Rightarrow> string \<Rightarrow> error + nexus_Nexus" where
  "Get m name =
     (case mgr_config m of
        None \<Rightarrow> Inl (Errorf ''no configuration loaded'')
      | Some cfg \<Rightarrow>
          (case cfg_Nexuses cfg name of
             None \<Rightarrow> Inl (Errorf (''nexus '' @ [CHR 0x27] @ name @ [CHR 0x27] @ '' not found''))
           | Some nexusConfig \<Rightarrow>
               (case getServersForNexus cfg name of
                  Inl err \<Rightarrow>
                    Inl (Wrap (''failed to load servers for nexus '' @ [CHR 0x27] @ name @
                               [CHR 0x27] @ '': '') err)
                | Inr servers \<Rightarrow>
                    Inr \<lparr>Name = name, Description = nx_Description nexusConfig,
                         Environment = nx_Environment nexusConfig, Servers = servers,
                         Config = nexusConfig\<rparr>)))"

subsection \<open>ExecuteOnNexus\<close>

text \<open>
  Every member gets a goroutine that calls \<^verbatim>\<open>Execute\<close> and sends one message on the
  result channel; the caller receives them in the order they were sent. That order is
  the scheduler's: \<open>sched\<close> lists member indices, the first occurrence of an index is
  the place of that member's send, and the members it leaves out send afterwards in
  index order (the wait group lets the channel close only after every send).
\<close>

definition send_order :: "nat \<Rightarrow> nat list \<Rightarrow> nat list" where
  "send_order n sched = rev (remdups (rev (filter (\<lambda>i. i < n) sched @ [0..<n])))"

text \<open>The result the collecting loop stores for a member whose \<^verbatim>\<open>Execute\<close> failed.\<close>

definition error_result :: "error \<Rightarrow> Result" where
  "error_result err = \<lparr>ExitCode = - 1, Stdout = [], Stderr = error_text err, Duration = 0\<rparr>"

text \<open>The collecting loop (lines 257-269): the results map and \<^verbatim>\<open>lastError\<close>.\<close>

fun collect ::
  "(string \<times> (error + Result)) list \<Rightarrow> (string \<rightharpoonup> Result) \<times> error option
     \<Rightarrow> (string \<rightharpoonup> Result) \<times> error option" where
  "collect [] acc = acc"
| "collect ((serverID, Inl err) # rest) (results, lastError) =
     collect rest (results(serverID \<mapsto> error_result err), Some err)"
| "collect ((serverID, Inr result) # rest) (results, lastError) =
     collect rest (results(serverID \<mapsto> result), lastError)"

text \<open>The body of \<^verbatim>\<open>ExecuteOnNexus\<close> after \<^verbatim>\<open>m.Get\<close> (lines 228-275), on the nexus's servers.\<close>

definition execute_on_servers ::
  "pkg_Server list \<Rightarrow> nat list \<Rightarrow> string \<Rightarrow> bool \<Rightarrow> (string \<rightharpoonup> Result) \<times> error option" where
  "execute_on_servers servers sched cmd sudo =
     (case collect
             (map (\<lambda>i. (srv_ID (servers ! i), srv_Execute (servers ! i) cmd sudo))
                (send_order (length servers) sched))
             (Map.empty, None) of
        (results, Some lastError) \<Rightarrow>
          (results, Some (Wrap ''command execution failed on some servers: '' lastError))
      | (results, None) \<Rightarrow> (results, None))"

text \<open>\<^verbatim>\<open>Manager.ExecuteOnNexus\<close>: the map is nil (\<open>None\<close>) only when \<^verbatim>\<open>Get\<close> fails.\<close>

definition ExecuteOnNexus ::
  "Manager \<Rightarrow> nat list \<Rightarrow> string \<Rightarrow> string \<Rightarrow> bool
     \<Rightarrow> (string \<rightharpoonup> Result) option \<times> error option" where
  "ExecuteOnNexus m sched nexusName cmd sudo =
     (case Get m nexusName of
        Inl err \<Rightarrow> (None, Some err)
      | Inr nexus \<Rightarrow>
          (case execute_on_servers (Servers nexus) sched cmd sudo of
             (results, err) \<Rightarrow> (Some results, err)))"

text \<open>
  A configuration whose nexus \<^verbatim>\<open>prod\<close> has two members on the same host and user
  (they differ in the ssh port), and two servers with identities of their own, the
  second of which cannot be reached.
\<close>

definition twin_config :: config_Config where
  "twin_config =
     \<lparr>cfg_Servers = [''web1'' \<mapsto> web_config, ''web2'' \<mapsto> web_config\<lparr>SSHPort := 2222\<rparr>],
      cfg_Nexuses =
        [''prod'' \<mapsto> \<lparr>nx_Description = [], nx_Servers = [''web1'', ''web2''],
                       nx_Environment = ''production''\<rparr>]\<rparr>"

definition twin_manager :: Manager where
  "twin_manager = \<lparr>mgr_config = Some twin_config, mgr_CurrentNexus = ''prod''\<rparr>"

definition host_a :: pkg_Server where
  "host_a = mockServer ''a'' ''10.0.0.1''"

definition host_b :: pkg_Server where
  "host_b =
     (mockServer ''b'' ''10.0.0.2'')
       \<lparr>srv_Execute := (\<lambda>cmd sudo. Inl NotConnected),
        srv_HealthCheck := Some (Wrap ''SSH connection failed: '' NotConnected)\<rparr>"

subsection \<open>Status\<close>

text \<open>
  \<^verbatim>\<open>ServerStatus\<close> and \<^verbatim>\<open>Status\<close>. The field \<^verbatim>\<open>Services\<close> is never assigned and is
  left out.
\<close>

record ServerStatus =
  Online :: bool
  Resources :: "ResourceInfo option"
  Error :: string

record Status =
  Healthy :: bool
  ServersOnline :: int
  ServersTotal :: int
  ServicesTotal :: int
  ServerStatuses :: "string \<rightharpoonup> ServerStatus"

text \<open>
  \<^verbatim>\<open>Status\<close> starts one goroutine per member (lines 168-194). What a goroutine does
  to memory shared with the others is, in order: read \<^verbatim>\<open>status.ServersOnline\<close> and
  write it back incremented (the statement \<^verbatim>\<open>status.ServersOnline++\<close>, which takes
  no lock and is no atomic operation), both only after a health check that succeeded,
  and send its message on the channel. A goroutine is therefore at one of four points:
  not started; counter read, with the value it read; counter written; message sent.
  The health check runs in the first step and \<^verbatim>\<open>GetResources\<close> in the step that
  sends; neither touches shared memory. \<open>resource_calls\<close> records the members whose
  \<^verbatim>\<open>GetResources\<close> was called.
\<close>

datatype task_pc = Start | Loaded int | Stored | Finished

record status_run =
  online_counter :: int
  tasks :: "task_pc list"
  sent :: "(string \<times> ServerStatus) list"
  resource_calls :: "nat list"

definition task_step :: "pkg_Server list \<Rightarrow> status_run \<Rightarrow> nat \<Rightarrow> status_run" where
  "task_step servers st i =
     (if length servers \<le> i then st
      else
        case tasks st ! i of
          Start \<Rightarrow>
            (case srv_HealthCheck (servers ! i) of
               Some err \<Rightarrow>
                 st\<lparr>tasks := (tasks st)[i := Finished],
                    sent := sent st @
                      [(srv_ID (servers ! i),
                        \<lparr>Online = False, Resources = None, Error = error_text err\<rparr>)]\<rparr>
             | None \<Rightarrow> st\<lparr>tasks := (tasks st)[i := Loaded (online_counter st)]\<rparr>)
        | Loaded v \<Rightarrow> st\<lparr>online_counter := v + 1, tasks := (tasks st)[i := Stored]\<rparr>
        | Stored \<Rightarrow>
            st\<lparr>tasks := (tasks st)[i := Finished],
               sent := sent st @
                 [(srv_ID (servers ! i),
                   \<lparr>Online = True,
                    Resources = (case srv_GetResources (servers ! i) of
                                   Inr resources \<Rightarrow> Some resources
                                 | Inl err \<Rightarrow> None),
                    Error = []\<rparr>)],
               resource_calls := resource_calls st @ [i]\<rparr>
        | Finished \<Rightarrow> st)"

text \<open>
  The scheduler's choices are a list of member indices: each occurrence lets that
  member's goroutine take its next step. The wait group makes every goroutine finish
  before the channel is closed, so after the listed steps each goroutine is run to its
  end, one after the other.
\<close>

definition run_tasks :: "pkg_Server list \<Rightarrow> nat list \<Rightarrow> status_run" where
  "run_tasks servers sched =
     foldl (task_step servers)
       \<lparr>online_counter = 0, tasks = replicate (length servers) Start, sent = [],
        resource_calls = []\<rparr>
       (sched @ concat (map (\<lambda>i. [i, i, i]) [0..<length servers]))"

text \<open>The body of \<^verbatim>\<open>Status\<close> after \<^verbatim>\<open>m.Get\<close> (lines 156-208).\<close>

definition status_of_servers :: "pkg_Server list \<Rightarrow> nat list \<Rightarrow> Status" where
  "status_of_servers servers sched =
     (let st = run_tasks servers sched
      in \<lparr>Healthy = (online_counter st = int (length servers)),
          ServersOnline = online_counter st,
          ServersTotal = int (length servers),
          ServicesTotal = 0,
          ServerStatuses = foldl (\<lambda>statuses (serverID, status). statuses(serverID \<mapsto> status))
                             Map.empty (sent st)\<rparr>)"

definition Status :: "Manager \<Rightarrow> nat list \<Rightarrow> string \<Rightarrow> error + Status" where
  "Status m sched name =
     (case Get m name of
        Inl err \<Rightarrow> Inl err
      | Inr nexus \<Rightarrow> Inr (status_of_servers (Servers nexus) sched))"

text \<open>A schedule in which every goroutine takes its steps without interruption.\<close>

definition serial :: "nat list \<Rightarrow> nat list" where
  "serial order = concat (map (\<lambda>i. [i, i, i]) order)"

definition host_c :: pkg_Server where
  "host_c = (mockServer ''c'' ''10.0.0.3'')\<lparr>srv_GetResources := Inl (CtxErr ''context deadline exceeded'')\<rparr>"

text \<open>A configuration whose nexus \<^verbatim>\<open>prod\<close> has two members on different hosts.\<close>

definition pair_config :: config_Config where
  "pair_config =
     \<lparr>cfg_Servers = [''web1'' \<mapsto> web_config, ''db1'' \<mapsto> web_config\<lparr>Host := ''10.0.0.6''\<rparr>],
      cfg_Nexuses =
        [''prod'' \<mapsto> \<lparr>nx_Description = [], nx_Servers = [''web1'', ''db1''],
                       nx_Environment = ''production''\<rparr>]\<rparr>"

definition pair_manager :: Manager where
  "pair_manager = \<lparr>mgr_config = Some pair_config, mgr_CurrentNexus = ''prod''\<rparr>"

(*PROPERTIES*)

section \<open>Properties of the remote host handle\<close>

lemma Execute_not_connected:
  "\<not> client s \<Longrightarrow> Execute s tr cmd sudo = (Inl NotConnected, s, [])"
  by (simp add: Execute_def)

lemma Execute_handle_unchanged: "fst (snd (Execute s tr cmd sudo)) = s"
  by (simp add: Execute_def Let_def split: exec_event.splits)

lemma TransferFile_handle_unchanged: "fst (snd (TransferFile s env loc remote)) = s"
  by (auto simp: TransferFile_def Let_def split: option.splits sum.splits if_splits)

lemma TransferFile_not_connected:
  "\<not> client s \<Longrightarrow> TransferFile s env loc remote = (Some NotConnected, s, [])"
  by (simp add: TransferFile_def)

lemma HealthCheck_not_connected:
  "\<not> client s \<Longrightarrow> HealthCheck s tr = Some (Wrap ''SSH connection failed: '' NotConnected)"
  by (simp add: HealthCheck_def exec_def Execute_not_connected)

lemma GetResources_not_connected:
  "\<not> client s \<Longrightarrow> GetResources s tr pf = Inl (Wrap ''failed to get CPU info: '' NotConnected)"
  by (simp add: GetResources_def getCPUInfo_def exec_def Execute_not_connected)

lemma Disconnect_not_connected: "\<not> client (snd (Disconnect s env))"
  by (simp add: Disconnect_def)

lemma Connect_ok_connected: "Connect s env = (None, s') \<Longrightarrow> client s'"
  by (auto simp: Connect_def Let_def split: if_splits sum.splits option.splits)

lemma Connect_failed_state: "Connect s env = (Some e, s') \<Longrightarrow> client s' = client s"
  by (auto simp: Connect_def Let_def split: if_splits sum.splits option.splits)

text \<open>
  C9. A handle that is not connected (\<^verbatim>\<open>s.client == nil\<close>) rejects \<^verbatim>\<open>Execute\<close> and
  \<^verbatim>\<open>TransferFile\<close> with the error "not connected to server"; the handle is left as
  it was and nothing is attempted on the transport. The operations built on
  \<^verbatim>\<open>Execute\<close> fail with that error wrapped, and neither operation ever changes the
  handle, so the state stays what \<^verbatim>\<open>Connect\<close> and \<^verbatim>\<open>Disconnect\<close> made it.
\<close>

theorem not_connected_is_rejected:
  "(\<not> client s \<longrightarrow>
      Execute s tr cmd sudo = (Inl NotConnected, s, []) \<and>
      TransferFile s env loc remote = (Some NotConnected, s, []) \<and>
      HealthCheck s tr = Some (Wrap ''SSH connection failed: '' NotConnected) \<and>
      GetResources s tr pf = Inl (Wrap ''failed to get CPU info: '' NotConnected)) \<and>
   fst (snd (Execute s tr cmd sudo)) = s \<and>
   fst (snd (TransferFile s env loc remote)) = s \<and>
   error_text NotConnected = ''not connected to server''"
  by (simp add: Execute_not_connected TransferFile_not_connected HealthCheck_not_connected
      GetResources_not_connected Execute_handle_unchanged TransferFile_handle_unchanged)

theorem not_connected_is_rejected_witness:
  "\<not> client (NewSSHServer ''web'' web_config) \<and>
   Execute (NewSSHServer ''web'' web_config) echo_transport ''uptime'' True
     = (Inl NotConnected, NewSSHServer ''web'' web_config, []) \<and>
   TransferFile (NewSSHServer ''web'' web_config) no_transfer ''a.txt'' ''/tmp/a.txt''
     = (Some NotConnected, NewSSHServer ''web'' web_config, [])"
  using not_connected_is_rejected [of "NewSSHServer ''web'' web_config" echo_transport
      "''uptime''" True no_transfer "''a.txt''" "''/tmp/a.txt''"]
  by (simp add: NewSSHServer_def)

text \<open>
  C6. With \<^verbatim>\<open>sudo\<close> set on a host whose configuration allows it, the call is the
  plain execution of the command behind the prefix \<^verbatim>\<open>sudo -n\<close>; on a host that does
  not allow it the call is the plain execution of the command itself, with the same
  outcome and no error of its own. A plain execution on a connected handle whose
  session is created runs exactly the command given.
\<close>

theorem sudo_prefix_or_downgrade:
  "(Sudo (config s) \<longrightarrow> Execute s tr cmd True = Execute s tr (''sudo -n '' @ cmd) False) \<and>
   (\<not> Sudo (config s) \<longrightarrow> Execute s tr cmd True = Execute s tr cmd False) \<and>
   (client s \<longrightarrow> (\<forall>e. tr cmd \<noteq> NewSessionErr e) \<longrightarrow>
      Run cmd \<in> set (snd (snd (Execute s tr cmd False))))"
  by (simp add: Execute_def sudo_wrap_def Let_def cancel_actions_def
      split: exec_event.splits cancel_phase.splits)

theorem sudo_prefix_or_downgrade_witness:
  "Sudo (config web_handle) \<and> \<not> Sudo (config plain_handle) \<and>
   Execute web_handle echo_transport ''apt-get update'' True
     = (Inr \<lparr>ExitCode = 3, Stdout = ''sudo -n apt-get update'', Stderr = ''boom'', Duration = 7\<rparr>,
        web_handle, [NewSession, Run ''sudo -n apt-get update'', SessionClose]) \<and>
   Execute plain_handle echo_transport ''apt-get update'' True
     = (Inr \<lparr>ExitCode = 3, Stdout = ''apt-get update'', Stderr = ''boom'', Duration = 7\<rparr>,
        plain_handle, [NewSession, Run ''apt-get update'', SessionClose])"
  using sudo_prefix_or_downgrade [of web_handle echo_transport "''apt-get update''"]
    sudo_prefix_or_downgrade [of plain_handle echo_transport "''apt-get update''"]
  by (simp add: Execute_def sudo_wrap_def web_handle_def plain_handle_def web_config_def
      echo_transport_def run_result_def Let_def)

lemma Execute_completed:
  "client s \<Longrightarrow> tr (sudo_wrap s cmd sudo) = RunDone r out errout d \<Longrightarrow>
   Execute s tr cmd sudo =
     (Inr (run_result r out errout d), s, [NewSession, Run (sudo_wrap s cmd sudo), SessionClose])"
  by (simp add: Execute_def Let_def)







text \<open>
  C10. When \<^verbatim>\<open>session.Run\<close> fails with an error that is no exit status, a connected
  handle returns no error but a result with exit status 1, whose error output is the
  captured one, or the error's text when nothing was captured. A command that exits
  with status 1 and that error output gives the very same return value.
\<close>

theorem run_failure_reported_as_exit_1:
  "client s \<Longrightarrow> tr (sudo_wrap s cmd sudo) = RunDone (RunErr m) out errout d \<Longrightarrow>
   fst (Execute s tr cmd sudo) =
     Inr \<lparr>ExitCode = 1, Stdout = out, Stderr = (if errout = [] then m else errout),
          Duration = d\<rparr> \<and>
   Execute s tr cmd sudo =
     Execute s (tr(sudo_wrap s cmd sudo :=
                   RunDone (ExitError 1) out (if errout = [] then m else errout) d)) cmd sudo"
  by (simp add: Execute_def Let_def run_result_def)

theorem run_failure_reported_as_exit_1_witness:
  "client web_handle \<and>
   fst (Execute web_handle broken_transport ''uptime'' False) =
     Inr \<lparr>ExitCode = 1, Stdout = [],
          Stderr = ''wait: remote command exited without exit status'', Duration = 5\<rparr>"
proof -
  have c: "client web_handle"
    by (simp add: web_handle_def)
  have t: "broken_transport (sudo_wrap web_handle ''uptime'' False) =
      RunDone (RunErr ''wait: remote command exited without exit status'') [] [] 5"
    by (simp add: broken_transport_def)
  show ?thesis
    using c run_failure_reported_as_exit_1 [of web_handle broken_transport "''uptime''" False
        "''wait: remote command exited without exit status''" "[]" "[]" 5, OF c t, THEN conjunct1]
    by simp
qed

section \<open>Properties of the nexus manager\<close>

lemma send_order_set: "set (send_order n sched) = {0..<n}"
  by (auto simp: send_order_def)

lemma send_order_distinct: "distinct (send_order n sched)"
  by (simp add: send_order_def)

lemma send_order_mset: "mset (send_order n sched) = mset [0..<n]"
proof -
  have "set (send_order n sched) = set [0..<n]"
    by (simp add: send_order_set)
  moreover have "distinct (send_order n sched)"
    by (rule send_order_distinct)
  moreover have "distinct [0..<n]"
    by simp
  ultimately show ?thesis
    by (metis set_eq_iff_mset_eq_distinct)
qed

lemma arrivals_mset:
  "mset (map ((!) servers) (send_order (length servers) sched)) = mset servers"
proof -
  have "mset (map ((!) servers) (send_order (length servers) sched)) =
        image_mset ((!) servers) (mset (send_order (length servers) sched))"
    by (simp only: mset_map)
  also have "\<dots> = image_mset ((!) servers) (mset [0..<length servers])"
    by (simp only: send_order_mset)
  also have "\<dots> = mset (map ((!) servers) [0..<length servers])"
    by (simp only: mset_map)
  also have "\<dots> = mset servers"
    by (simp only: map_nth)
  finally show ?thesis .
qed

lemma collect_dom: "dom (fst (collect msgs (m, e))) = dom m \<union> fst ` set msgs"
  by (induction msgs "(m, e)" arbitrary: m e rule: collect.induct) auto

lemma collect_other: "k \<notin> fst ` set msgs \<Longrightarrow> fst (collect msgs (m, e)) k = m k"
  by (induction msgs "(m, e)" arbitrary: m e rule: collect.induct) auto

lemma collect_lookup:
  "distinct (map fst msgs) \<Longrightarrow> (k, out) \<in> set msgs \<Longrightarrow>
   fst (collect msgs (m, e)) k = Some (case out of Inl err \<Rightarrow> error_result err | Inr r \<Rightarrow> r)"
proof (induction msgs "(m, e)" arbitrary: m e rule: collect.induct)
  case 1
  then show ?case by simp
next
  case (2 serverID err rest results lastError)
  then show ?case by (auto simp: collect_other)
next
  case (3 serverID result rest results lastError)
  then show ?case by (auto simp: collect_other)
qed

lemma collect_no_error:
  "(snd (collect msgs (m, e)) = None) = (e = None \<and> (\<forall>p \<in> set msgs. \<not> isl (snd p)))"
  by (induction msgs "(m, e)" arbitrary: m e rule: collect.induct) auto

lemma collect_error_source:
  "snd (collect msgs (m, e)) = Some x \<Longrightarrow> e = Some x \<or> (\<exists>k. (k, Inl x) \<in> set msgs)"
  by (induction msgs "(m, e)" arbitrary: m e rule: collect.induct) auto

lemma execute_on_servers_fst:
  "fst (execute_on_servers servers sched cmd sudo) =
   fst (collect (map (\<lambda>s. (srv_ID s, srv_Execute s cmd sudo))
                   (map ((!) servers) (send_order (length servers) sched))) (Map.empty, None))"
  by (simp add: execute_on_servers_def comp_def split: prod.splits option.splits)

lemma execute_on_servers_snd:
  "snd (execute_on_servers servers sched cmd sudo) =
   map_option (Wrap ''command execution failed on some servers: '')
     (snd (collect (map (\<lambda>s. (srv_ID s, srv_Execute s cmd sudo))
                      (map ((!) servers) (send_order (length servers) sched))) (Map.empty, None)))"
  by (simp add: execute_on_servers_def comp_def split: prod.splits option.splits)

lemma arrivals_set: "set (map ((!) servers) (send_order (length servers) sched)) = set servers"
  by (metis arrivals_mset set_mset_mset)

lemma arrivals_distinct_ids:
  "distinct (map srv_ID (map ((!) servers) (send_order (length servers) sched))) =
   distinct (map srv_ID servers)"
proof -
  have "mset (map srv_ID (map ((!) servers) (send_order (length servers) sched))) =
        mset (map srv_ID servers)"
    using arrivals_mset [of servers sched] by (metis mset_map)
  then show ?thesis
    by (rule mset_eq_imp_distinct_iff)
qed

lemma collect_map_dom:
  "dom (fst (collect (map (\<lambda>s. (srv_ID s, g s)) arr) (Map.empty, None))) = srv_ID ` set arr"
  by (simp add: collect_dom image_image)

lemma collect_map_lookup:
  assumes "distinct (map srv_ID arr)" and "s \<in> set arr"
  shows "fst (collect (map (\<lambda>s. (srv_ID s, g s)) arr) (Map.empty, None)) (srv_ID s) =
         Some (case g s of Inl err \<Rightarrow> error_result err | Inr r \<Rightarrow> r)"
proof (rule collect_lookup)
  show "distinct (map fst (map (\<lambda>s. (srv_ID s, g s)) arr))"
    using assms(1) by (simp add: comp_def)
  show "(srv_ID s, g s) \<in> set (map (\<lambda>s. (srv_ID s, g s)) arr)"
    using assms(2) by auto
qed

lemma collect_map_no_error:
  "(snd (collect (map (\<lambda>s. (srv_ID s, g s)) arr) (Map.empty, None)) = None) =
   (\<forall>s \<in> set arr. \<not> isl (g s))"
  by (simp add: collect_no_error)

lemma collect_map_error:
  assumes "snd (collect (map (\<lambda>s. (srv_ID s, g s)) arr) (Map.empty, None)) = Some x"
  shows "\<exists>s \<in> set arr. g s = Inl x"
  using collect_error_source [OF assms] by auto

lemma execute_on_servers_dom:
  "dom (fst (execute_on_servers servers sched cmd sudo)) = srv_ID ` set servers"
  unfolding execute_on_servers_fst collect_map_dom by (simp only: arrivals_set)

lemma execute_on_servers_entry:
  assumes "distinct (map srv_ID servers)" and "s \<in> set servers"
  shows "fst (execute_on_servers servers sched cmd sudo) (srv_ID s) =
         Some (case srv_Execute s cmd sudo of Inl err \<Rightarrow> error_result err | Inr r \<Rightarrow> r)"
  unfolding execute_on_servers_fst
proof (rule collect_map_lookup)
  show "distinct (map srv_ID (map ((!) servers) (send_order (length servers) sched)))"
    using assms(1) by (simp only: arrivals_distinct_ids)
  show "s \<in> set (map ((!) servers) (send_order (length servers) sched))"
    using assms(2) by (simp only: arrivals_set)
qed

lemma execute_on_servers_card:
  assumes "distinct (map srv_ID servers)"
  shows "card (dom (fst (execute_on_servers servers sched cmd sudo))) = length servers"
proof -
  have "card (srv_ID ` set servers) = length (map srv_ID servers)"
    using assms by (metis distinct_card set_map)
  then show ?thesis
    by (simp add: execute_on_servers_dom)
qed

lemma execute_on_servers_no_error:
  "(snd (execute_on_servers servers sched cmd sudo) = None) =
   (\<forall>s \<in> set servers. \<not> isl (srv_Execute s cmd sudo))"
proof -
  have "(snd (execute_on_servers servers sched cmd sudo) = None) =
        (\<forall>s \<in> set (map ((!) servers) (send_order (length servers) sched)).
            \<not> isl (srv_Execute s cmd sudo))"
    unfolding execute_on_servers_snd by (simp only: map_option_is_None collect_map_no_error)
  then show ?thesis
    by (simp only: arrivals_set)
qed

lemma execute_on_servers_error:
  assumes "snd (execute_on_servers servers sched cmd sudo) = Some e"
  shows "\<exists>s \<in> set servers. \<exists>x. srv_Execute s cmd sudo = Inl x \<and>
           e = Wrap ''command execution failed on some servers: '' x"
proof -
  let ?arr = "map ((!) servers) (send_order (length servers) sched)"
  from assms obtain x
    where x: "snd (collect (map (\<lambda>s. (srv_ID s, srv_Execute s cmd sudo)) ?arr)
                     (Map.empty, None)) = Some x"
      and e: "e = Wrap ''command execution failed on some servers: '' x"
    unfolding execute_on_servers_snd by auto
  from collect_map_error [OF x] obtain s
    where "s \<in> set ?arr" and "srv_Execute s cmd sudo = Inl x"
    by blast
  then have "s \<in> set servers" and "srv_Execute s cmd sudo = Inl x"
    by (simp_all only: arrivals_set)
  with e show ?thesis
    by blast
qed

lemma send_order_two: "send_order (Suc (Suc 0)) [] = [0, Suc 0]"
  by (simp add: send_order_def)

lemma twin_servers:
  "Get twin_manager ''prod'' =
     Inr \<lparr>Name = ''prod'', Description = [], Environment = ''production'',
          Servers = [mockServer ''10.0.0.5-deploy'' ''10.0.0.5'',
                     mockServer ''10.0.0.5-deploy'' ''10.0.0.5''],
          Config = \<lparr>nx_Description = [], nx_Servers = [''web1'', ''web2''],
                    nx_Environment = ''production''\<rparr>\<rparr>"
  by (simp add: Get_def twin_manager_def twin_config_def getServersForNexus_def
      GetNexusServers_def web_config_def)

lemma twin_execute:
  "execute_on_servers
     [mockServer ''10.0.0.5-deploy'' ''10.0.0.5'', mockServer ''10.0.0.5-deploy'' ''10.0.0.5'']
     [] ''true'' False =
   ([''10.0.0.5-deploy'' \<mapsto>
       \<lparr>ExitCode = 0, Stdout = ''mock output'', Stderr = [], Duration = 0\<rparr>], None)"
  by (simp add: execute_on_servers_def send_order_two mockServer_def)

lemma ExecuteOnNexus_found:
  "Get m nexusName = Inr nexus \<Longrightarrow>
   ExecuteOnNexus m sched nexusName cmd sudo =
     (Some (fst (execute_on_servers (Servers nexus) sched cmd sudo)),
      snd (execute_on_servers (Servers nexus) sched cmd sudo))"
  by (simp add: ExecuteOnNexus_def split: prod.splits)

text \<open>
  C1, as amended. Whatever the order in which the members' goroutines send, the
  outcome map's keys are exactly the members' identities. When those identities are
  pairwise distinct the map has as many entries as the nexus has members, and each
  member's entry is its result, or for a member whose \<^verbatim>\<open>Execute\<close> failed the result
  with exit status -1 and the error's text as error output. The returned error is nil
  exactly when no member failed, and otherwise wraps the error of a failed member; the
  complete map is returned with it.
\<close>

theorem outcome_map_keys_are_member_ids:
  "dom (fst (execute_on_servers servers sched cmd sudo)) = srv_ID ` set servers \<and>
   (distinct (map srv_ID servers) \<longrightarrow>
      card (dom (fst (execute_on_servers servers sched cmd sudo))) = length servers \<and>
      (\<forall>s \<in> set servers.
         fst (execute_on_servers servers sched cmd sudo) (srv_ID s) =
           Some (case srv_Execute s cmd sudo of Inl err \<Rightarrow> error_result err | Inr r \<Rightarrow> r))) \<and>
   ((snd (execute_on_servers servers sched cmd sudo) = None) =
      (\<forall>s \<in> set servers. \<not> isl (srv_Execute s cmd sudo))) \<and>
   (\<forall>e. snd (execute_on_servers servers sched cmd sudo) = Some e \<longrightarrow>
      (\<exists>s \<in> set servers. \<exists>x. srv_Execute s cmd sudo = Inl x \<and>
         e = Wrap ''command execution failed on some servers: '' x)) \<and>
   (\<forall>nexus. Get m nexusName = Inr nexus \<longrightarrow> servers = Servers nexus \<longrightarrow>
      ExecuteOnNexus m sched nexusName cmd sudo =
        (Some (fst (execute_on_servers servers sched cmd sudo)),
         snd (execute_on_servers servers sched cmd sudo)))"
proof (intro conjI impI allI ballI)
  show "dom (fst (execute_on_servers servers sched cmd sudo)) = srv_ID ` set servers"
    by (rule execute_on_servers_dom)
  show "(snd (execute_on_servers servers sched cmd sudo) = None) =
      (\<forall>s \<in> set servers. \<not> isl (srv_Execute s cmd sudo))"
    by (rule execute_on_servers_no_error)
  show "card (dom (fst (execute_on_servers servers sched cmd sudo))) = length servers"
    if "distinct (map srv_ID servers)"
    using that by (rule execute_on_servers_card)
  show "fst (execute_on_servers servers sched cmd sudo) (srv_ID s) =
      Some (case srv_Execute s cmd sudo of Inl err \<Rightarrow> error_result err | Inr r \<Rightarrow> r)"
    if "distinct (map srv_ID servers)" and "s \<in> set servers" for s
    using that by (rule execute_on_servers_entry)
  show "\<exists>s \<in> set servers. \<exists>x. srv_Execute s cmd sudo = Inl x \<and>
      e = Wrap ''command execution failed on some servers: '' x"
    if "snd (execute_on_servers servers sched cmd sudo) = Some e" for e
    using that by (rule execute_on_servers_error)
  show "ExecuteOnNexus m sched nexusName cmd sudo =
      (Some (fst (execute_on_servers servers sched cmd sudo)),
       snd (execute_on_servers servers sched cmd sudo))"
    if "Get m nexusName = Inr nexus" and "servers = Servers nexus" for nexus
    using that by (simp only: ExecuteOnNexus_found)
qed

lemma host_a_fields:
  "srv_ID host_a = ''a'' \<and>
   srv_Execute host_a ''true'' False =
     Inr \<lparr>ExitCode = 0, Stdout = ''mock output'', Stderr = [], Duration = 0\<rparr>"
  by (simp add: host_a_def mockServer_def)

lemma host_b_fields:
  "srv_ID host_b = ''b'' \<and> srv_Execute host_b ''true'' False = Inl NotConnected"
  by (simp add: host_b_def mockServer_def)

theorem outcome_map_keys_are_member_ids_witness:
  "distinct (map srv_ID [host_a, host_b]) \<and>
   card (dom (fst (execute_on_servers [host_a, host_b] [1, 0] ''true'' False))) = 2 \<and>
   fst (execute_on_servers [host_a, host_b] [1, 0] ''true'' False) ''b'' =
     Some \<lparr>ExitCode = - 1, Stdout = [], Stderr = ''not connected to server'', Duration = 0\<rparr> \<and>
   fst (execute_on_servers [host_a, host_b] [1, 0] ''true'' False) ''a'' =
     Some \<lparr>ExitCode = 0, Stdout = ''mock output'', Stderr = [], Duration = 0\<rparr>"
proof -
  have d: "distinct (map srv_ID [host_a, host_b])"
    by (simp add: host_a_fields host_b_fields)
  note k = outcome_map_keys_are_member_ids [of "[host_a, host_b]" "[1, 0]" "''true''" False
      twin_manager "''prod''", THEN conjunct2, THEN conjunct1, rule_format, OF d]
  have n: "card (dom (fst (execute_on_servers [host_a, host_b] [1, 0] ''true'' False))) = 2"
    using k [THEN conjunct1] by simp
  have a: "fst (execute_on_servers [host_a, host_b] [1, 0] ''true'' False) (srv_ID host_a) =
      Some (case srv_Execute host_a ''true'' False of
              Inl err \<Rightarrow> error_result err | Inr r \<Rightarrow> r)"
    by (rule k [THEN conjunct2, THEN bspec]) simp
  have b: "fst (execute_on_servers [host_a, host_b] [1, 0] ''true'' False) (srv_ID host_b) =
      Some (case srv_Execute host_b ''true'' False of
              Inl err \<Rightarrow> error_result err | Inr r \<Rightarrow> r)"
    by (rule k [THEN conjunct2, THEN bspec]) simp
  show ?thesis
    using d n a b by (simp add: host_a_fields host_b_fields error_result_def)
qed

text \<open>
  The claim as stated fails where two members share an identity: in \<open>twin_config\<close>
  the nexus has two members on the same host and user, and the outcome map has one
  entry.
\<close>

theorem two_members_one_entry_counterexample:
  "(case Get twin_manager ''prod'' of Inl err \<Rightarrow> 0 | Inr nexus \<Rightarrow> length (Servers nexus)) = 2 \<and>
   ExecuteOnNexus twin_manager [] ''prod'' ''true'' False =
     (Some [''10.0.0.5-deploy'' \<mapsto>
              \<lparr>ExitCode = 0, Stdout = ''mock output'', Stderr = [], Duration = 0\<rparr>], None) \<and>
   card (dom [''10.0.0.5-deploy'' \<mapsto>
              \<lparr>ExitCode = 0, Stdout = ''mock output'', Stderr = [], Duration = 0\<rparr>]) = 1"
proof -
  have "ExecuteOnNexus twin_manager [] ''prod'' ''true'' False =
     (Some [''10.0.0.5-deploy'' \<mapsto>
              \<lparr>ExitCode = 0, Stdout = ''mock output'', Stderr = [], Duration = 0\<rparr>], None)"
    unfolding ExecuteOnNexus_found [OF twin_servers] by (simp add: twin_execute)
  then show ?thesis
    by (simp add: twin_servers)
qed

end
